theory Spec2Isabelle
  imports Main
begin

section \<open>Python values used by the page\<close>

text \<open>
  The page \<^verbatim>\<open>projects/_003_ask_your_spreadsheets/index.py\<close> loads uploaded CSV files
  into one in-memory SQLite connection, renders a textual description of the tables,
  asks an external translator for a SQL statement and runs it.  Everything the page
  mutates (the connection, the session state, the widgets it draws, the calls it makes
  to its collaborators) is a field of an explicit state that each function takes and
  returns; a raised exception is the \<open>Inl\<close> branch of the result, and the state
  reached when it was raised is kept.
\<close>

text \<open>A raised instance of a subclass of \<^verbatim>\<open>Exception\<close>, by class, with its message.\<close>

datatype pyexc =
    KeyError string
  | ValueError string
  | OperationalError string
  | DatabaseError string
  | ParserError string
  | MixpanelException string
  | OtherException string

abbreviation newline :: char where
  "newline \<equiv> CHR 0x0A"

abbreviation quote :: char where
  "quote \<equiv> CHR 0x27"

text \<open>\<^verbatim>\<open>s.replace(a, b)\<close> for one-character \<open>a\<close> and \<open>b\<close>.\<close>

definition str_replace :: "string \<Rightarrow> char \<Rightarrow> char \<Rightarrow> string" where
  "str_replace s a b = map (\<lambda>c. if c = a then b else c) s"

text \<open>\<^verbatim>\<open>s.lower()\<close> on the ASCII letters; every other byte is kept.\<close>

definition char_lower :: "char \<Rightarrow> char" where
  "char_lower c =
     (let n = (of_char c :: nat) in if 65 \<le> n \<and> n \<le> 90 then char_of (n + 32) else c)"

definition str_lower :: "string \<Rightarrow> string" where
  "str_lower s = map char_lower s"

definition char_upper :: "char \<Rightarrow> char" where
  "char_upper c =
     (let n = (of_char c :: nat) in if 97 \<le> n \<and> n \<le> 122 then char_of (n - 32) else c)"

text \<open>\<^verbatim>\<open>s.startswith(p)\<close> and \<^verbatim>\<open>sub in s\<close>.\<close>

fun startswith :: "string \<Rightarrow> string \<Rightarrow> bool" where
  "startswith s [] = True"
| "startswith [] (p # ps) = False"
| "startswith (c # cs) (p # ps) = (c = p \<and> startswith cs ps)"

fun str_contains :: "string \<Rightarrow> string \<Rightarrow> bool" where
  "str_contains [] sub = (sub = [])"
| "str_contains (c # cs) sub = (startswith (c # cs) sub \<or> str_contains cs sub)"

text \<open>\<^verbatim>\<open>s.rstrip(chars)\<close>: every trailing character that is in \<open>chars\<close> goes.\<close>

definition str_rstrip :: "string \<Rightarrow> string \<Rightarrow> string" where
  "str_rstrip s chars = rev (dropWhile (\<lambda>c. c \<in> set chars) (rev s))"

text \<open>\<^verbatim>\<open>s.split(sep)[0]\<close>: the text before the first \<open>sep\<close>, all of \<open>s\<close> without one.\<close>

definition split_first :: "string \<Rightarrow> char \<Rightarrow> string" where
  "split_first s sep = takeWhile (\<lambda>c. c \<noteq> sep) s"

text \<open>\<^verbatim>\<open>sep.join(parts)\<close>.\<close>

fun str_join :: "string \<Rightarrow> string list \<Rightarrow> string" where
  "str_join sep [] = []"
| "str_join sep [x] = x"
| "str_join sep (x # y # ys) = x @ sep @ str_join sep (y # ys)"

text \<open>
  What an f-string prints for a fetched row: \<^verbatim>\<open>None\<close>, or the tuple with the
  \<^verbatim>\<open>repr\<close> of each value, a one-element tuple with its trailing comma.  The cell
  values are a type parameter \<open>'v\<close>, and their \<^verbatim>\<open>repr\<close> is passed in.
\<close>

definition str_tuple :: "('v \<Rightarrow> string) \<Rightarrow> 'v list \<Rightarrow> string" where
  "str_tuple repr vs =
     (case vs of
        [v] \<Rightarrow> ''('' @ repr v @ '',)''
      | _ \<Rightarrow> ''('' @ str_join '', '' (map repr vs) @ '')'')"

definition str_row :: "('v \<Rightarrow> string) \<Rightarrow> 'v list option \<Rightarrow> string" where
  "str_row repr r = (case r of None \<Rightarrow> ''None'' | Some vs \<Rightarrow> str_tuple repr vs)"

section \<open>Data frames\<close>

text \<open>
  A pandas data frame: its columns in order, each with the dtype pandas inferred, and
  its rows.  \<^verbatim>\<open>df.empty\<close> holds when either axis has length zero.
\<close>

datatype dtype = Int64 | Float64 | Bool | Object | Datetime64

record 'v dataframe =
  df_columns :: "(string \<times> dtype) list"
  df_rows :: "'v list list"

definition df_empty :: "'v dataframe \<Rightarrow> bool" where
  "df_empty df = (df_columns df = [] \<or> df_rows df = [])"

section \<open>The SQLite connection\<close>

text \<open>
  A table has its columns in declaration order, each with its declared type as
  \<^verbatim>\<open>PRAGMA table_info\<close> reports it, and its rows in rowid order.  The connection
  is the list of its tables in \<^verbatim>\<open>sqlite_master\<close> order.
\<close>

record 'v table =
  tbl_columns :: "(string \<times> string) list"
  tbl_rows :: "'v list list"

type_synonym 'v database = "(string \<times> 'v table) list"

text \<open>
  The page interpolates table names into SQL text without quoting them.  Modelled from
  SQLite's tokenizer: the interpolated text is read as the table it names when it is a
  bare identifier (a letter, an underscore or a byte above ASCII, followed by letters,
  digits, underscores, dollar signs or such bytes) that is not one of the keywords
  SQLite refuses as a name; a text with a space, a hyphen, a parenthesis or any other
  character is not one token, and the statement is rejected.
\<close>

definition sqlite_reserved :: "string list" where
  "sqlite_reserved = [
    ''ADD'', ''ALL'', ''ALTER'', ''AND'', ''AS'', ''AUTOINCREMENT'', ''BETWEEN'', ''CASE'',
    ''CHECK'', ''COLLATE'', ''COMMIT'', ''CONSTRAINT'', ''CREATE'', ''DEFAULT'',
    ''DEFERRABLE'', ''DELETE'', ''DISTINCT'', ''DROP'', ''ELSE'', ''ESCAPE'', ''EXCEPT'',
    ''EXISTS'', ''FOREIGN'', ''FROM'', ''GROUP'', ''HAVING'', ''IN'', ''INDEX'',
    ''INSERT'', ''INTERSECT'', ''INTO'', ''IS'', ''ISNULL'', ''JOIN'', ''LIMIT'', ''NOT'',
    ''NOTHING'', ''NOTNULL'', ''NULL'', ''ON'', ''OR'', ''ORDER'', ''PRIMARY'',
    ''REFERENCES'', ''RETURNING'', ''SELECT'', ''SET'', ''TABLE'', ''THEN'', ''TO'',
    ''TRANSACTION'', ''UNION'', ''UNIQUE'', ''UPDATE'', ''USING'', ''VALUES'', ''WHEN'',
    ''WHERE'']"

definition ident_start :: "char \<Rightarrow> bool" where
  "ident_start c =
     (let n = (of_char c :: nat)
      in (65 \<le> n \<and> n \<le> 90) \<or> (97 \<le> n \<and> n \<le> 122) \<or> n = 95 \<or> 128 \<le> n)"

definition ident_char :: "char \<Rightarrow> bool" where
  "ident_char c = (let n = (of_char c :: nat) in ident_start c \<or> (48 \<le> n \<and> n \<le> 57) \<or> n = 36)"

definition bare_identifier :: "string \<Rightarrow> bool" where
  "bare_identifier s =
     (case s of
        [] \<Rightarrow> False
      | c # cs \<Rightarrow> ident_start c \<and> list_all ident_char cs
                 \<and> \<not> List.member sqlite_reserved (map char_upper s))"

definition sqlite_table_ref :: "string \<Rightarrow> pyexc + string" where
  "sqlite_table_ref txt =
     (if bare_identifier txt then Inr txt else Inl (OperationalError ''syntax error''))"

text \<open>SQLite compares table names without regard to ASCII case.\<close>

definition same_name :: "string \<Rightarrow> string \<Rightarrow> bool" where
  "same_name a b = (str_lower a = str_lower b)"

definition find_table :: "'v database \<Rightarrow> string \<Rightarrow> 'v table option" where
  "find_table db n = map_option snd (find (\<lambda>nt. same_name (fst nt) n) db)"

text \<open>\<^verbatim>\<open>SELECT name FROM sqlite_master WHERE type='table';\<close> and \<^verbatim>\<open>fetchall\<close>.\<close>

definition select_table_names :: "'v database \<Rightarrow> string list" where
  "select_table_names db = map fst db"

text \<open>\<^verbatim>\<open>DROP TABLE IF EXISTS {txt}\<close>: no error when the table it names is absent.\<close>

definition drop_table_if_exists :: "string \<Rightarrow> 'v database \<Rightarrow> pyexc + 'v database" where
  "drop_table_if_exists txt db =
     (case sqlite_table_ref txt of
        Inl e \<Rightarrow> Inl e
      | Inr n \<Rightarrow> Inr (filter (\<lambda>nt. \<not> same_name (fst nt) n) db))"

text \<open>
  \<^verbatim>\<open>PRAGMA table_info('{txt}')\<close> and \<^verbatim>\<open>fetchall\<close>: the name is a quoted literal
  here, so any text without a quote character names a table; an absent table has no
  columns.  Each fetched row is reduced to its fields 1 and 2, the column's name and
  declared type, the only ones the page reads.
\<close>

definition pragma_table_info :: "string \<Rightarrow> 'v database \<Rightarrow> pyexc + (string \<times> string) list" where
  "pragma_table_info txt db =
     (if quote \<in> set txt then Inl (OperationalError ''syntax error'')
      else Inr (case find_table db txt of None \<Rightarrow> [] | Some t \<Rightarrow> tbl_columns t))"

text \<open>\<^verbatim>\<open>SELECT * FROM {txt} LIMIT 1;\<close> and \<^verbatim>\<open>fetchone\<close>: \<open>None\<close> on an empty table.\<close>

definition select_first_row :: "string \<Rightarrow> 'v database \<Rightarrow> pyexc + 'v list option" where
  "select_first_row txt db =
     (case sqlite_table_ref txt of
        Inl e \<Rightarrow> Inl e
      | Inr n \<Rightarrow>
          (case find_table db n of
             None \<Rightarrow> Inl (OperationalError ''no such table'')
           | Some t \<Rightarrow> Inr (case tbl_rows t of [] \<Rightarrow> None | r # rs \<Rightarrow> Some r)))"

text \<open>
  \<^verbatim>\<open>df.to_sql(name, conn, index=False)\<close>, modelled from the pandas documentation:
  \<^verbatim>\<open>if_exists\<close> is left at its default \<^verbatim>\<open>'fail'\<close>, so a table of that very name
  makes it raise \<^verbatim>\<open>ValueError\<close>; otherwise it creates the table, the name quoted,
  with one column per data-frame column, and inserts the rows.  SQLite refuses the
  \<^verbatim>\<open>CREATE TABLE\<close> when the name differs from an existing one only by case or when
  two columns have the same name up to case.
\<close>

fun sqlite_type :: "dtype \<Rightarrow> string" where
  "sqlite_type Int64 = ''INTEGER''"
| "sqlite_type Float64 = ''REAL''"
| "sqlite_type Bool = ''INTEGER''"
| "sqlite_type Object = ''TEXT''"
| "sqlite_type Datetime64 = ''TIMESTAMP''"

definition table_of :: "'v dataframe \<Rightarrow> 'v table" where
  "table_of df =
     \<lparr>tbl_columns = map (\<lambda>c. (fst c, sqlite_type (snd c))) (df_columns df),
      tbl_rows = df_rows df\<rparr>"

definition to_sql :: "'v dataframe \<Rightarrow> string \<Rightarrow> 'v database \<Rightarrow> (pyexc + unit) \<times> 'v database" where
  "to_sql df name db =
     (if name \<in> set (map fst db) then (Inl (ValueError ''Table already exists.''), db)
      else if find_table db name \<noteq> None then (Inl (DatabaseError ''table already exists''), db)
      else if \<not> distinct (map (\<lambda>c. str_lower (fst c)) (df_columns df))
        then (Inl (DatabaseError ''duplicate column name''), db)
      else (Inr (), db @ [(name, table_of df)]))"

section \<open>Dropping the tables\<close>

text \<open>
  \<^verbatim>\<open>drop_all_tables\<close>: the names are fetched first, then one \<^verbatim>\<open>DROP TABLE IF EXISTS\<close>
  per name; the first statement SQLite rejects ends the loop with its exception.
\<close>

fun drop_tables :: "string list \<Rightarrow> 'v database \<Rightarrow> (pyexc + unit) \<times> 'v database" where
  "drop_tables [] db = (Inr (), db)"
| "drop_tables (table_name # tables) db =
     (case drop_table_if_exists table_name db of
        Inl e \<Rightarrow> (Inl e, db)
      | Inr db' \<Rightarrow> drop_tables tables db')"

definition drop_all_tables :: "'v database \<Rightarrow> (pyexc + unit) \<times> 'v database" where
  "drop_all_tables db = drop_tables (select_table_names db) db"

section \<open>The schema summarizer\<close>

text \<open>The inner loop's step on \<open>table_schemas\<close>, for one fetched column.\<close>

definition add_column :: "string \<Rightarrow> string \<times> string \<Rightarrow> string" where
  "add_column table_schemas column =
     (let column_name = str_replace (fst column) (CHR '' '') (CHR ''_'');
          column_type = snd column
      in if \<not> str_contains (str_lower column_type) ''text''
         then table_schemas @ ''    '' @ column_name @ '' '' @ column_type @ [CHR '','', newline]
         else table_schemas)"

text \<open>The outer loop's body: the text for one table, or the exception of a statement.\<close>

definition table_schema :: "('v \<Rightarrow> string) \<Rightarrow> 'v database \<Rightarrow> string \<Rightarrow> pyexc + string" where
  "table_schema repr db table_name =
     (case pragma_table_info table_name db of
        Inl e \<Rightarrow> Inl e
      | Inr columns \<Rightarrow>
          (case select_first_row table_name db of
             Inl e \<Rightarrow> Inl e
           | Inr first_row_data \<Rightarrow>
               Inr (str_rstrip
                      (foldl add_column (''CREATE TABLE '' @ table_name @ '' ('' @ [newline]) columns)
                      [CHR '','', newline]
                    @ [newline] @ '');'' @ [newline, newline]
                    @ ''First Row Data: '' @ str_row repr first_row_data @ [newline, newline])))"

fun schemas_loop ::
  "('v \<Rightarrow> string) \<Rightarrow> 'v database \<Rightarrow> string list \<Rightarrow> string \<Rightarrow> pyexc + string" where
  "schemas_loop repr db [] schemas_with_data = Inr schemas_with_data"
| "schemas_loop repr db (table_name # table_names) schemas_with_data =
     (case table_schema repr db table_name of
        Inl e \<Rightarrow> Inl e
      | Inr table_schemas \<Rightarrow>
          schemas_loop repr db table_names (schemas_with_data @ table_schemas))"

definition get_table_schemas_with_data :: "('v \<Rightarrow> string) \<Rightarrow> 'v database \<Rightarrow> pyexc + string" where
  "get_table_schemas_with_data repr db = schemas_loop repr db (select_table_names db) []"

section \<open>The description, as specified\<close>

text \<open>
  The specification's words for the summarizer: a column is left out of the structural
  block when its declared type contains \<^verbatim>\<open>text\<close> in any case; the block is the
  header, one line per remaining column, the trailing comma and newline trimmed, and
  the closing \<^verbatim>\<open>);\<close>; the line after it renders the first row in full, or
  \<^verbatim>\<open>None\<close>.  SQLite keeps table names distinct up to case.
\<close>

definition wf_store :: "'v database \<Rightarrow> bool" where
  "wf_store db = distinct (map (\<lambda>nt. str_lower (fst nt)) db)"











section \<open>Collaborators and page state\<close>

text \<open>The two analytics events of the page, with the distinct id and the payload.\<close>

datatype telemetry =
    RunSqlQuery string bool
  | UploadCsvFiles string nat

text \<open>What the page draws, in order.\<close>

datatype 'v ui_event =
    Step1Title
  | Step2Title
  | UploadWarning
  | ApiKeyError
  | GeneratedQueryLabel
  | Code string
  | ResultsLabel
  | ShowDataframe "'v dataframe"
  | NoResultsInfo
  | GenerationFailedWarning

text \<open>
  \<^verbatim>\<open>st.session_state\<close>: a key that is not set is \<open>None\<close>.  The key \<^verbatim>\<open>conn\<close>
  holds a reference to the one cached connection, so only its presence is recorded.
\<close>

record 'v session_state =
  session_id :: "string option"
  api_key :: "string option"
  conn :: bool
  dataframes :: "(string \<times> 'v dataframe) list option"
  step :: "nat option"
  upload_completed :: "bool option"

text \<open>
  The state: the cached connection, the session, and the logs of what was drawn, of
  the analytics calls made, of the calls to the translator (question and schema text)
  and of the statements handed to the query executor.
\<close>

record 'v world =
  store :: "'v database"
  session :: "'v session_state"
  page :: "'v ui_event list"
  tracked :: "telemetry list"
  translated :: "(string \<times> string) list"
  executed :: "string list"

text \<open>
  The collaborators the page imports, taken as parameters: \<^verbatim>\<open>mp.track\<close> (\<open>None\<close>
  when the call returns, the exception when it raises), the translator
  \<^verbatim>\<open>generate_sql_statement\<close> (which returns a string or \<^verbatim>\<open>None\<close>),
  \<^verbatim>\<open>pd.read_sql_query\<close> on the connection (a data frame or an exception, and the
  connection after the statement ran), and \<^verbatim>\<open>repr\<close> on cell values.
\<close>

record 'v env =
  mp_track :: "telemetry \<Rightarrow> pyexc option"
  generate_sql_statement :: "string \<Rightarrow> string \<Rightarrow> pyexc + string option"
  read_sql_query :: "string \<Rightarrow> 'v database \<Rightarrow> (pyexc + 'v dataframe) \<times> 'v database"
  repr :: "'v \<Rightarrow> string"

section \<open>The query executor\<close>

text \<open>
  \<^verbatim>\<open>execute_sql_statement\<close>: \<open>result\<close> is bound only when the query returned, every
  exception of the query is swallowed, and the \<^verbatim>\<open>finally\<close> block looks the session
  id up and calls \<^verbatim>\<open>mp.track\<close> outside the \<^verbatim>\<open>try\<close>, so what it raises leaves the
  function.
\<close>

definition execute_sql_statement ::
  "'v env \<Rightarrow> string \<Rightarrow> 'v world \<Rightarrow> (pyexc + 'v dataframe option) \<times> 'v world" where
  "execute_sql_statement env sql_statement w =
     (let (outcome, db) = read_sql_query env sql_statement (store w);
          w1 = w\<lparr>store := db, executed := executed w @ [sql_statement]\<rparr>;
          result = (case outcome of Inr df \<Rightarrow> Some df | Inl e \<Rightarrow> None);
          rows_returned = (case result of Some df \<Rightarrow> \<not> df_empty df | None \<Rightarrow> False)
      in case session_id (session w1) of
           None \<Rightarrow> (Inl (KeyError ''session_id''), w1)
         | Some sid \<Rightarrow>
             (let w2 = w1\<lparr>tracked := tracked w1 @ [RunSqlQuery sid rows_returned]\<rparr>
              in case mp_track env (RunSqlQuery sid rows_returned) of
                   Some e \<Rightarrow> (Inl e, w2)
                 | None \<Rightarrow> (Inr (if rows_returned then result else None), w2)))"

section \<open>Step 1: uploading\<close>

text \<open>
  An uploaded file: its name, and what \<^verbatim>\<open>pd.read_csv\<close> makes of its bytes (a data
  frame, or the parser's exception).
\<close>

record 'v uploaded_file =
  file_name :: string
  read_csv :: "pyexc + 'v dataframe"

text \<open>\<^verbatim>\<open>d[k] = v\<close> on a dict, which keeps insertion order.\<close>

fun dict_set :: "('k \<times> 'a) list \<Rightarrow> 'k \<Rightarrow> 'a \<Rightarrow> ('k \<times> 'a) list" where
  "dict_set [] k v = [(k, v)]"
| "dict_set (kv # kvs) k v = (if fst kv = k then (k, v) # kvs else kv # dict_set kvs k v)"

text \<open>The \<^verbatim>\<open>for file in uploaded_files\<close> loop, on the local dict \<^verbatim>\<open>dataframes\<close> (here \<open>frames\<close>) and the connection.\<close>

fun load_files ::
  "'v uploaded_file list \<Rightarrow> (string \<times> 'v dataframe) list \<Rightarrow> 'v database
     \<Rightarrow> (pyexc + (string \<times> 'v dataframe) list) \<times> 'v database" where
  "load_files [] frames db = (Inr frames, db)"
| "load_files (file # files) frames db =
     (case read_csv file of
        Inl e \<Rightarrow> (Inl e, db)
      | Inr df0 \<Rightarrow>
          (let df = df0\<lparr>df_columns :=
                      map (\<lambda>col. (str_replace (fst col) (CHR '' '') (CHR ''_''), snd col))
                        (df_columns df0)\<rparr>;
               table_name = split_first (file_name file) (CHR ''.'');
               frames' = dict_set frames (file_name file) df
           in case to_sql df table_name db of
                (Inl e, db') \<Rightarrow> (Inl e, db')
              | (Inr u, db') \<Rightarrow> load_files files frames' db'))"

text \<open>The block under \<^verbatim>\<open>if uploaded_files:\<close>.\<close>

definition step_1_upload :: "'v uploaded_file list \<Rightarrow> 'v world \<Rightarrow> (pyexc + unit) \<times> 'v world" where
  "step_1_upload uploaded_files w =
     (if uploaded_files = [] then (Inr (), w)
      else case drop_all_tables (store w) of
             (Inl e, db) \<Rightarrow> (Inl e, w\<lparr>store := db\<rparr>)
           | (Inr u, db) \<Rightarrow>
               (case load_files uploaded_files [] db of
                  (Inl e, db') \<Rightarrow> (Inl e, w\<lparr>store := db'\<rparr>)
                | (Inr dfs, db') \<Rightarrow>
                    (Inr (), w\<lparr>store := db',
                               session := (session w)\<lparr>conn := True, dataframes := Some dfs,
                                                      upload_completed := Some True\<rparr>\<rparr>)))"

text \<open>The block under \<^verbatim>\<open>if st.button("Finished Uploading Data") or ...\<close>.\<close>

definition step_1_finish :: "'v env \<Rightarrow> bool \<Rightarrow> 'v world \<Rightarrow> (pyexc + unit) \<times> 'v world" where
  "step_1_finish env finished w =
     (if finished \<or> upload_completed (session w) = Some True then
        (case dataframes (session w) of
           None \<Rightarrow> (Inr (), w\<lparr>page := page w @ [UploadWarning]\<rparr>)
         | Some dfs \<Rightarrow>
             if dfs = [] then (Inr (), w\<lparr>page := page w @ [UploadWarning]\<rparr>)
             else (case session_id (session w) of
                     None \<Rightarrow> (Inl (KeyError ''session_id''), w)
                   | Some sid \<Rightarrow>
                       (let w1 = w\<lparr>tracked := tracked w @ [UploadCsvFiles sid (length dfs)]\<rparr>
                        in case mp_track env (UploadCsvFiles sid (length dfs)) of
                             Some e \<Rightarrow> (Inl e, w1)
                           | None \<Rightarrow>
                               (Inr (), w1\<lparr>session := (session w1)\<lparr>step := Some 2,
                                                 upload_completed := Some False\<rparr>\<rparr>))))
      else (Inr (), w))"

text \<open>
  \<^verbatim>\<open>step_1\<close>, given what the file uploader holds and whether the button was pressed.
\<close>

definition step_1 ::
  "'v env \<Rightarrow> 'v uploaded_file list \<Rightarrow> bool \<Rightarrow> 'v world \<Rightarrow> (pyexc + unit) \<times> 'v world" where
  "step_1 env uploaded_files finished w =
     (let w1 = w\<lparr>page := page w @ [Step1Title]\<rparr>;
          w2 = (if upload_completed (session w1) = None
                then w1\<lparr>session := (session w1)\<lparr>upload_completed := Some False\<rparr>\<rparr>
                else w1)
      in case step_1_upload uploaded_files w2 of
           (Inl e, w3) \<Rightarrow> (Inl e, w3)
         | (Inr u, w3) \<Rightarrow> step_1_finish env finished w3)"



section \<open>Step 2: asking\<close>

text \<open>
  \<^verbatim>\<open>step_2\<close>, given the text of the question and whether the button was pressed.
  A missing or empty API key ends the function before anything else is read.
\<close>

definition show_result :: "'v dataframe option \<Rightarrow> 'v world \<Rightarrow> 'v world" where
  "show_result result_df w =
     (case result_df of
        None \<Rightarrow> w\<lparr>page := page w @ [NoResultsInfo]\<rparr>
      | Some df \<Rightarrow>
          if \<not> df_empty df then w\<lparr>page := page w @ [ResultsLabel, ShowDataframe df]\<rparr>
          else w\<lparr>page := page w @ [NoResultsInfo]\<rparr>)"

definition step_2 :: "'v env \<Rightarrow> string \<Rightarrow> bool \<Rightarrow> 'v world \<Rightarrow> (pyexc + unit) \<times> 'v world" where
  "step_2 env question asked w =
     (let w1 = w\<lparr>page := page w @ [Step2Title]\<rparr>
      in if \<not> asked then (Inr (), w1)
         else if api_key (session w1) = None \<or> api_key (session w1) = Some []
           then (Inr (), w1\<lparr>page := page w1 @ [ApiKeyError]\<rparr>)
         else if \<not> conn (session w1) then (Inl (KeyError ''conn''), w1)
         else (case get_table_schemas_with_data (repr env) (store w1) of
                 Inl e \<Rightarrow> (Inl e, w1)
               | Inr table_schemas \<Rightarrow>
                   (let w2 = w1\<lparr>translated := translated w1 @ [(question, table_schemas)]\<rparr>
                    in case generate_sql_statement env question table_schemas of
                         Inl e \<Rightarrow> (Inl e, w2)
                       | Inr None \<Rightarrow> (Inr (), w2\<lparr>page := page w2 @ [GenerationFailedWarning]\<rparr>)
                       | Inr (Some sql_statement) \<Rightarrow>
                           if sql_statement = []
                           then (Inr (), w2\<lparr>page := page w2 @ [GenerationFailedWarning]\<rparr>)
                           else (let w3 = w2\<lparr>page := page w2
                                                @ [GeneratedQueryLabel, Code sql_statement]\<rparr>
                                 in case execute_sql_statement env sql_statement w3 of
                                      (Inl e, w4) \<Rightarrow> (Inl e, w4)
                                    | (Inr result_df, w4) \<Rightarrow> (Inr (), show_result result_df w4)))))"

section \<open>Example values\<close>

text \<open>
  Concrete cell values with their \<^verbatim>\<open>repr\<close>, a stand-in engine that knows three
  statements, a translator that fails on the empty question, and a session; the
  instances below are evaluated on them.
\<close>

datatype cell = IntCell int | TextCell string | NullCell

function str_nat :: "nat \<Rightarrow> string" where
  "str_nat n = (if n < 10 then [char_of (48 + n)] else str_nat (n div 10) @ [char_of (48 + n mod 10)])"
  by pat_completeness auto
termination
  by (relation "measure id") auto

declare str_nat.simps [simp del]

fun cell_repr :: "cell \<Rightarrow> string" where
  "cell_repr (IntCell i) = (if i < 0 then CHR ''-'' # str_nat (nat (- i)) else str_nat (nat i))"
| "cell_repr (TextCell s) = quote # s @ [quote]"
| "cell_repr NullCell = ''None''"

definition example_query :: "string \<Rightarrow> cell database \<Rightarrow> (pyexc + cell dataframe) \<times> cell database" where
  "example_query sql db =
     (if sql = ''SELECT 1'' then (Inr \<lparr>df_columns = [(''1'', Int64)], df_rows = [[IntCell 1]]\<rparr>, db)
      else if sql = ''SELECT 1 WHERE 0'' then (Inr \<lparr>df_columns = [(''1'', Int64)], df_rows = []\<rparr>, db)
      else (Inl (DatabaseError ''syntax error''), db))"

definition example_env :: "cell env" where
  "example_env =
     \<lparr>mp_track = (\<lambda>ev. None),
      generate_sql_statement = (\<lambda>question schemas. if question = [] then Inr None else Inr (Some ''SELECT 1'')),
      read_sql_query = example_query,
      repr = cell_repr\<rparr>"

definition failing_telemetry_env :: "cell env" where
  "failing_telemetry_env = example_env\<lparr>mp_track := (\<lambda>ev. Some (MixpanelException ''connection failed''))\<rparr>"

definition example_session :: "cell session_state" where
  "example_session =
     \<lparr>session_id = Some ''s1'', api_key = Some ''sk-test'', conn = True, dataframes = None,
      step = Some 2, upload_completed = Some False\<rparr>"

definition example_world :: "cell world" where
  "example_world =
     \<lparr>store = [], session = example_session, page = [], tracked = [], translated = [], executed = []\<rparr>"






text \<open>
  Uploaded files: the two that give the connection above, a second file whose name
  also starts with \<^verbatim>\<open>sales.\<close>, and one with a space in its name; a session
  that has not uploaded yet; and the state after \<^verbatim>\<open>my data.csv\<close> was uploaded,
  seen from a new session (the connection is cached across sessions).
\<close>

definition sales_file :: "cell uploaded_file" where
  "sales_file =
     \<lparr>file_name = ''sales.csv'',
      read_csv = Inr \<lparr>df_columns = [(''Region'', Object), (''Amount'', Int64)],
                      df_rows = [[TextCell ''West'', IntCell 10], [TextCell ''East'', IntCell 20]]\<rparr>\<rparr>"



definition my_data_file :: "cell uploaded_file" where
  "my_data_file =
     \<lparr>file_name = ''my data.csv'',
      read_csv = Inr \<lparr>df_columns = [(''Amount'', Int64)], df_rows = [[IntCell 5]]\<rparr>\<rparr>"

definition fresh_session :: "cell session_state" where
  "fresh_session =
     \<lparr>session_id = Some ''s1'', api_key = None, conn = False, dataframes = None,
      step = Some 1, upload_completed = None\<rparr>"

definition fresh_world :: "cell world" where
  "fresh_world =
     \<lparr>store = [], session = fresh_session, page = [], tracked = [], translated = [], executed = []\<rparr>"

definition my_data_world :: "cell world" where
  "my_data_world = (snd (step_1 example_env [my_data_file] False fresh_world))\<lparr>session := fresh_session\<rparr>"

section \<open>The query executor: results\<close>

lemmas ex_defs =
  example_env_def example_query_def example_world_def example_session_def
  failing_telemetry_env_def

text \<open>The value \<^verbatim>\<open>execute_sql_statement\<close> leaves with, by cases.\<close>

lemma execute_result:
  "fst (execute_sql_statement env sql w) =
     (case session_id (session w) of
        None \<Rightarrow> Inl (KeyError ''session_id'')
      | Some sid \<Rightarrow>
          (case fst (read_sql_query env sql (store w)) of
             Inl e \<Rightarrow> (case mp_track env (RunSqlQuery sid False) of Some x \<Rightarrow> Inl x | None \<Rightarrow> Inr None)
           | Inr df \<Rightarrow>
               (case mp_track env (RunSqlQuery sid (\<not> df_empty df)) of
                  Some x \<Rightarrow> Inl x
                | None \<Rightarrow> Inr (if df_empty df then None else Some df))))"
  by (simp add: execute_sql_statement_def Let_def split: prod.splits sum.splits option.splits)

text \<open>
  Claim C1.  A statement on which \<^verbatim>\<open>pd.read_sql_query\<close> raises and a statement
  that returns a frame without rows leave the executor with the same value; when the
  session id is set and the analytics call returns, that value is \<^verbatim>\<open>None\<close> for both,
  so the caller cannot tell a SQL error from an empty result.
\<close>

theorem execute_error_same_as_no_rows:
  assumes "fst (read_sql_query env invalid_sql (store w)) = Inl e"
    and "fst (read_sql_query env empty_sql (store w)) = Inr df"
    and "df_rows df = []"
  shows "fst (execute_sql_statement env invalid_sql w) = fst (execute_sql_statement env empty_sql w)
       \<and> (session_id (session w) = Some sid \<and> mp_track env (RunSqlQuery sid False) = None
            \<longrightarrow> fst (execute_sql_statement env invalid_sql w) = Inr None
              \<and> fst (execute_sql_statement env empty_sql w) = Inr None)"
  using assms by (simp add: execute_result df_empty_def split: option.splits)

theorem execute_error_same_as_no_rows_witness:
  "fst (execute_sql_statement example_env ''SELEC 1'' example_world)
     = fst (execute_sql_statement example_env ''SELECT 1 WHERE 0'' example_world)
   \<and> fst (execute_sql_statement example_env ''SELEC 1'' example_world) = Inr None
   \<and> fst (execute_sql_statement example_env ''SELECT 1 WHERE 0'' example_world) = Inr None"
proof -
  have a: "fst (read_sql_query example_env ''SELEC 1'' (store example_world)) = Inl (DatabaseError ''syntax error'')"
    by (simp add: ex_defs)
  have b: "fst (read_sql_query example_env ''SELECT 1 WHERE 0'' (store example_world))
             = Inr \<lparr>df_columns = [(''1'', Int64)], df_rows = []\<rparr>"
    by (simp add: ex_defs)
  have c: "df_rows \<lparr>df_columns = [(''1'', Int64)], df_rows = ([] :: cell list list)\<rparr> = []"
    by simp
  have d: "session_id (session example_world) = Some ''s1''
           \<and> mp_track example_env (RunSqlQuery ''s1'' False) = None"
    by (simp add: ex_defs)
  show ?thesis
    using execute_error_same_as_no_rows [OF a b c, of "''s1''"] d by simp
qed

text \<open>
  Claim C10.  Whenever the executor returns, its value is \<^verbatim>\<open>None\<close> or a frame with
  at least one row; it is a frame exactly when the query returned that frame and the
  frame is not \<^verbatim>\<open>empty\<close> (it has a row, and a column, as every result set has).
\<close>

theorem execute_never_returns_empty_table:
  assumes "fst (execute_sql_statement env sql w) = Inr r"
  shows "(r = None \<or> (\<exists>df. r = Some df \<and> df_rows df \<noteq> []))
       \<and> (\<forall>df. r = Some df \<longleftrightarrow>
             fst (read_sql_query env sql (store w)) = Inr df \<and> df_rows df \<noteq> [] \<and> df_columns df \<noteq> [])"
  using assms
  by (auto simp add: execute_result df_empty_def split: option.splits sum.splits if_splits)

theorem execute_never_returns_empty_table_witness:
  "fst (execute_sql_statement example_env ''SELECT 1'' example_world)
     = Inr (Some \<lparr>df_columns = [(''1'', Int64)], df_rows = [[IntCell 1]]\<rparr>)
   \<and> df_rows \<lparr>df_columns = [(''1'', Int64)], df_rows = [[IntCell 1]]\<rparr> \<noteq> []"
proof -
  have a: "fst (execute_sql_statement example_env ''SELECT 1'' example_world)
     = Inr (Some \<lparr>df_columns = [(''1'', Int64)], df_rows = [[IntCell 1]]\<rparr>)"
    by (simp add: execute_sql_statement_def ex_defs df_empty_def)
  show ?thesis
    using execute_never_returns_empty_table [OF a] a by simp
qed

text \<open>
  Claim C9, as stated, fails: the analytics call sits in the \<^verbatim>\<open>finally\<close> block,
  outside the \<^verbatim>\<open>try\<close>, so when it raises the exception leaves the executor.
\<close>

theorem execute_telemetry_failure_counterexample:
  "fst (execute_sql_statement failing_telemetry_env ''SELECT 1'' example_world)
     = Inl (MixpanelException ''connection failed'')"
  by (simp add: execute_sql_statement_def ex_defs df_empty_def)

text \<open>
  Claim C9, amended.  With the session id set, the executor returns, whatever the
  query did (a frame, an empty frame or an exception), provided the analytics call
  returns; an exception of the analytics call is what the executor raises.
\<close>

theorem execute_returns_when_telemetry_returns:
  assumes "session_id (session w) = Some sid"
  shows "((\<forall>b. mp_track env (RunSqlQuery sid b) = None)
            \<longrightarrow> (\<exists>r. fst (execute_sql_statement env sql w) = Inr r))
       \<and> ((\<forall>b. mp_track env (RunSqlQuery sid b) = Some x)
            \<longrightarrow> fst (execute_sql_statement env sql w) = Inl x)"
proof (intro conjI impI)
  assume "\<forall>b. mp_track env (RunSqlQuery sid b) = None"
  then show "\<exists>r. fst (execute_sql_statement env sql w) = Inr r"
    using assms by (simp add: execute_result split: sum.splits)
next
  assume "\<forall>b. mp_track env (RunSqlQuery sid b) = Some x"
  then show "fst (execute_sql_statement env sql w) = Inl x"
    using assms by (simp add: execute_result split: sum.splits)
qed

theorem execute_returns_when_telemetry_returns_witness:
  "(\<exists>r. fst (execute_sql_statement example_env ''SELEC 1'' example_world) = Inr r)
   \<and> fst (execute_sql_statement failing_telemetry_env ''SELEC 1'' example_world)
       = Inl (MixpanelException ''connection failed'')"
proof -
  have a: "session_id (session example_world) = Some ''s1''"
    by (simp add: ex_defs)
  have b: "\<forall>b. mp_track example_env (RunSqlQuery ''s1'' b) = None"
    by (simp add: ex_defs)
  have c: "\<forall>b. mp_track failing_telemetry_env (RunSqlQuery ''s1'' b)
             = Some (MixpanelException ''connection failed'')"
    by (simp add: ex_defs)
  show ?thesis
    using execute_returns_when_telemetry_returns
            [where env = example_env and sql = "''SELEC 1''", OF a]
      execute_returns_when_telemetry_returns
            [where env = failing_telemetry_env and sql = "''SELEC 1''"
               and x = "MixpanelException ''connection failed''", OF a]
      b c by blast
qed

section \<open>Step 2: the two early exits\<close>

text \<open>
  Claim C6.  When the question is asked and the API key is missing or empty, step 2
  draws its title and the missing-key error and returns: the connection, the session,
  the log of translator calls, the log of executed statements and the analytics log
  are those of the state it started from.
\<close>

theorem step_2_missing_api_key:
  assumes "api_key (session w) = None \<or> api_key (session w) = Some []"
  shows "step_2 env question True w = (Inr (), w\<lparr>page := page w @ [Step2Title, ApiKeyError]\<rparr>)"
  using assms by (auto simp add: step_2_def Let_def)

theorem step_2_missing_api_key_witness:
  "step_2 example_env ''How many rows?'' True
     (example_world\<lparr>session := example_session\<lparr>api_key := None\<rparr>\<rparr>)
   = (Inr (), example_world\<lparr>session := example_session\<lparr>api_key := None\<rparr>,
                             page := [Step2Title, ApiKeyError]\<rparr>)"
proof -
  have a: "api_key (session (example_world\<lparr>session := example_session\<lparr>api_key := None\<rparr>\<rparr>)) = None
         \<or> api_key (session (example_world\<lparr>session := example_session\<lparr>api_key := None\<rparr>\<rparr>)) = Some []"
    by simp
  show ?thesis
    using step_2_missing_api_key [OF a, of example_env "''How many rows?''"]
    by (simp add: example_world_def)
qed

text \<open>
  Claim C7.  When the translator returns \<^verbatim>\<open>None\<close> or the empty string, step 2 draws
  the failed-to-generate warning (not the no-results notice) and returns; the call to
  the translator is the only thing logged, so the executor was not invoked: no
  statement was executed and no analytics event was sent.
\<close>

theorem step_2_translator_empty:
  assumes "api_key (session w) = Some k" and "k \<noteq> []" and "conn (session w)"
    and "get_table_schemas_with_data (repr env) (store w) = Inr schemas"
    and "generate_sql_statement env question schemas = Inr s"
    and "s = None \<or> s = Some []"
  shows "step_2 env question True w =
           (Inr (), w\<lparr>page := page w @ [Step2Title, GenerationFailedWarning],
                      translated := translated w @ [(question, schemas)]\<rparr>)"
  using assms by (auto simp add: step_2_def Let_def)

theorem step_2_translator_empty_witness:
  "step_2 example_env [] True example_world
   = (Inr (), example_world\<lparr>page := [Step2Title, GenerationFailedWarning],
                             translated := [([], [])]\<rparr>)"
proof -
  have a: "api_key (session example_world) = Some ''sk-test''" by (simp add: ex_defs)
  have b: "''sk-test'' \<noteq> []" by simp
  have c: "conn (session example_world)" by (simp add: ex_defs)
  have d: "get_table_schemas_with_data (repr example_env) (store example_world) = Inr []"
    by (simp add: get_table_schemas_with_data_def select_table_names_def ex_defs)
  have e: "generate_sql_statement example_env [] [] = Inr None" by (simp add: ex_defs)
  have f: "(None :: string option) = None \<or> (None :: string option) = Some []" by simp
  show ?thesis
    using step_2_translator_empty [OF a b c d e f] by (simp add: example_world_def)
qed

section \<open>The schema summarizer: what the description holds\<close>




lemma find_table_member:
  "wf_store db \<Longrightarrow> (n, t) \<in> set db \<Longrightarrow> find_table db n = Some t"
proof (induction db)
  case Nil
  then show ?case by simp
next
  case (Cons a db)
  show ?case
  proof (cases "a = (n, t)")
    case True
    then show ?thesis by (simp add: find_table_def same_name_def)
  next
    case False
    then have mem: "(n, t) \<in> set db" using Cons.prems by auto
    have "str_lower (fst a) \<notin> (\<lambda>nt. str_lower (fst nt)) ` set db"
      using Cons.prems(1) by (simp add: wf_store_def)
    then have "str_lower (fst a) \<noteq> str_lower n" using mem by force
    moreover have "wf_store db" using Cons.prems(1) by (simp add: wf_store_def)
    ultimately show ?thesis using Cons.IH mem by (simp add: find_table_def same_name_def)
  qed
qed





lemma ident_char_not_quote: "ident_char c \<Longrightarrow> c \<noteq> quote"
  by (auto simp: ident_char_def ident_start_def Let_def)

lemma ident_start_not_quote: "ident_start c \<Longrightarrow> c \<noteq> quote"
  by (auto simp: ident_start_def Let_def)

lemma bare_identifier_no_quote: "bare_identifier n \<Longrightarrow> quote \<notin> set n"
  by (cases n) (auto simp: bare_identifier_def list_all_iff
                  dest: ident_char_not_quote ident_start_not_quote)

lemma table_schema_returns:
  assumes "bare_identifier n" and "find_table db n = Some t"
  shows "\<exists>s. table_schema rp db n = Inr s"
  using assms bare_identifier_no_quote [OF assms(1)]
  by (simp add: table_schema_def pragma_table_info_def select_first_row_def sqlite_table_ref_def)

lemma schemas_loop_returns:
  assumes "wf_store db" and "set ts \<subseteq> set db" and "list_all bare_identifier (map fst ts)"
  shows "\<exists>text. schemas_loop rp db (map fst ts) acc = Inr text"
  using assms(2,3)
proof (induction ts arbitrary: acc)
  case Nil
  then show ?case by simp
next
  case (Cons nt ts)
  obtain n t where nt: "nt = (n, t)" by (cases nt)
  have "find_table db n = Some t"
    using Cons.prems(1) assms(1) nt by (auto intro: find_table_member)
  moreover have "bare_identifier n" using Cons.prems(2) nt by simp
  ultimately obtain s where s: "table_schema rp db n = Inr s"
    using table_schema_returns by blast
  have "set ts \<subseteq> set db" using Cons.prems(1) by simp
  moreover have "list_all bare_identifier (map fst ts)" using Cons.prems(2) by simp
  ultimately have "\<exists>text. schemas_loop rp db (map fst ts) (acc @ s) = Inr text"
    by (rule Cons.IH)
  then show ?case using s nt by simp
qed

lemma describe_returns:
  assumes "wf_store db" and "list_all bare_identifier (map fst db)"
  shows "\<exists>text. get_table_schemas_with_data rp db = Inr text"
  using schemas_loop_returns [OF assms(1) subset_refl assms(2)]
  by (simp add: get_table_schemas_with_data_def select_table_names_def)















section \<open>Step 1: what a load leaves in the connection\<close>

lemma str_replace_no_space: "CHR '' '' \<notin> set (str_replace s (CHR '' '') (CHR ''_''))"
  by (auto simp: str_replace_def)

lemma same_name_refl: "same_name n n"
  by (simp add: same_name_def)

lemma drop_tables_result:
  "drop_tables ns db = (Inr u, db')
     \<Longrightarrow> db' = filter (\<lambda>nt. \<forall>n \<in> set ns. \<not> same_name (fst nt) n) db"
proof (induction ns arbitrary: db)
  case Nil
  then show ?case by simp
next
  case (Cons n ns)
  then obtain db1 where d: "drop_table_if_exists n db = Inr db1"
    and rest: "drop_tables ns db1 = (Inr u, db')"
    by (auto split: sum.splits)
  have "db1 = filter (\<lambda>nt. \<not> same_name (fst nt) n) db"
    using d by (auto simp: drop_table_if_exists_def sqlite_table_ref_def split: if_splits)
  moreover have "db' = filter (\<lambda>nt. \<forall>n \<in> set ns. \<not> same_name (fst nt) n) db1"
    using rest by (rule Cons.IH)
  ultimately show ?case by (auto intro: filter_cong)
qed

lemma drop_all_tables_empty:
  assumes "fst (drop_all_tables db) = Inr ()"
  shows "snd (drop_all_tables db) = []"
proof -
  obtain db' where r: "drop_tables (map fst db) db = (Inr (), db')"
    using assms by (cases "drop_tables (map fst db) db") (auto simp: drop_all_tables_def select_table_names_def)
  have "db' = filter (\<lambda>nt. \<forall>n \<in> set (map fst db). \<not> same_name (fst nt) n) db"
    using r by (rule drop_tables_result)
  also have "\<dots> = []"
    by (auto simp: filter_empty_conv intro: same_name_refl)
  finally show ?thesis using r by (simp add: drop_all_tables_def select_table_names_def)
qed

lemma drop_tables_bare:
  "list_all bare_identifier ns \<Longrightarrow> fst (drop_tables ns db) = Inr ()"
  by (induction ns arbitrary: db)
     (auto simp: drop_table_if_exists_def sqlite_table_ref_def)

lemma drop_all_tables_bare:
  "list_all bare_identifier (map fst db) \<Longrightarrow> drop_all_tables db = (Inr (), [])"
  using drop_tables_bare [of "map fst db" db] drop_all_tables_empty [of db]
  by (simp add: drop_all_tables_def select_table_names_def prod_eq_iff)


















text \<open>
  Claim C3, on a connection that holds the table \<^verbatim>\<open>my data\<close>: uploading
  \<^verbatim>\<open>my data.csv\<close> succeeds, as \<^verbatim>\<open>to_sql\<close> quotes the name; on the next load
  \<^verbatim>\<open>drop_all_tables\<close> interpolates the name unquoted, SQLite rejects the statement,
  the exception leaves step 1, and the old table is still there while the new file is
  not loaded.
\<close>

theorem step_1_unquoted_drop_fails:
  "fst (step_1 example_env [my_data_file] False fresh_world) = Inr ()
   \<and> store my_data_world
       = [(''my data'', \<lparr>tbl_columns = [(''Amount'', ''INTEGER'')], tbl_rows = [[IntCell 5]]\<rparr>)]
   \<and> drop_all_tables (store my_data_world)
       = (Inl (OperationalError ''syntax error''), store my_data_world)
   \<and> fst (step_1 example_env [sales_file] False my_data_world)
       = Inl (OperationalError ''syntax error'')
   \<and> store (snd (step_1 example_env [sales_file] False my_data_world)) = store my_data_world"
  by code_simp

end
